theory Spec2Isabelle
  imports Complex_Main "HOL-Library.Log_Nat"
begin

section \<open>JavaScript values used by the client\<close>

text \<open>
  A JavaScript \<open>number\<close> is a finite value, one of the two infinities, or NaN.
  A finite value is carried as the real it denotes.
\<close>

datatype number = NaN | NegInfinity | PosInfinity | Finite real

text \<open>The comparison \<open>a < b\<close> of two numbers; every comparison with NaN is false.\<close>

fun js_lt :: "number \<Rightarrow> number \<Rightarrow> bool" where
  "js_lt NaN _ = False"
| "js_lt _ NaN = False"
| "js_lt (Finite a) (Finite b) = (a < b)"
| "js_lt NegInfinity NegInfinity = False"
| "js_lt NegInfinity _ = True"
| "js_lt _ NegInfinity = False"
| "js_lt PosInfinity _ = False"
| "js_lt _ PosInfinity = True"

text \<open>Truthiness of a number: \<open>0\<close> and NaN are falsy, everything else is truthy.\<close>

fun truthy :: "number \<Rightarrow> bool" where
  "truthy NaN = False"
| "truthy (Finite x) = (x \<noteq> 0)"
| "truthy _ = True"

text \<open>\<open>a || b\<close> on numbers: \<open>a\<close> when it is truthy, else \<open>b\<close>.\<close>

definition js_or :: "number \<Rightarrow> number \<Rightarrow> number" where
  "js_or a b = (if truthy a then a else b)"

text \<open>
  \<open>a || b\<close> where either side may also be \<open>undefined\<close> (an absent optional field):
  \<open>undefined\<close> is falsy too.
\<close>

definition js_or_undef :: "number option \<Rightarrow> number option \<Rightarrow> number option" where
  "js_or_undef a b = (case a of None \<Rightarrow> b | Some x \<Rightarrow> if truthy x then a else b)"

subsection \<open>Arithmetic on doubles\<close>


text \<open>\<open>\<lfloor>log\<^sub>2 |x|\<rfloor>\<close> for \<open>x \<noteq> 0\<close>, computed from the bit length of an integer.\<close>

definition ilog2 :: "real \<Rightarrow> int" where
  "ilog2 x =
     (if 1 \<le> \<bar>x\<bar> then bitlen \<lfloor>\<bar>x\<bar>\<rfloor> - 1 else - bitlen (\<lceil>1 / \<bar>x\<bar>\<rceil> - 1))"








text \<open>\<open>n.toString()\<close> of a non-negative integer: its decimal digits.\<close>

definition digit_char :: "nat \<Rightarrow> char" where
  "digit_char d = ''0123456789'' ! d"

fun nat_toString :: "nat \<Rightarrow> string" where
  "nat_toString n =
     (if n < 10 then [digit_char n] else nat_toString (n div 10) @ [digit_char (n mod 10)])"

declare nat_toString.simps [simp del]


text \<open>
  \<open>x.toFixed(f)\<close> after ECMAScript's Number.prototype.toFixed: a non-finite \<open>x\<close>
  prints by name; otherwise the sign is split off, \<open>n\<close> is the integer nearest to
  \<open>|x| * 10^f\<close> (the larger one on a tie), and its digits, padded with zeros to at least
  \<open>f + 1\<close>, get a point before the last \<open>f\<close>. For \<open>|x| \<ge> 10^21\<close> JavaScript
  switches to exponent notation; that range is outside this model.
\<close>

definition toFixed :: "nat \<Rightarrow> number \<Rightarrow> string" where
  "toFixed f x =
     (case x of
        NaN \<Rightarrow> ''NaN''
      | PosInfinity \<Rightarrow> ''Infinity''
      | NegInfinity \<Rightarrow> ''-Infinity''
      | Finite r \<Rightarrow>
          (let s = (if r < 0 then ''-'' else []);
               n = nat \<lfloor>\<bar>r\<bar> * 10 ^ f + 1 / 2\<rfloor>;
               m = nat_toString n;
               m' = (if f \<noteq> 0 \<and> length m \<le> f
                     then replicate (f + 1 - length m) CHR ''0'' @ m else m);
               k = length m'
           in if f \<noteq> 0 then s @ take (k - f) m' @ ''.'' @ drop (k - f) m' else s @ m'))"

section \<open>Domain types (types.ts)\<close>

datatype BotStatus = Stopped | Running | Scanning

datatype StrategyType = Fullset | Endgame | Oracle | Rewards

record PortfolioSummary =
  total_value :: number
  cash_balance :: number
  positions_value :: number
  total_pnl :: number
  total_return_pct :: number
  realized_pnl :: number
  unrealized_pnl :: number
  num_open_positions :: number
  total_trades :: number

text \<open>
  An opportunity as it arrives from the wire. The optional fields are options; \<open>edge_pct\<close>
  is declared required, but the display code passes it to a formatter that accepts
  \<open>undefined\<close>, so it is an option here as well.
\<close>

record Opportunity =
  opp_id :: string
  name :: string
  strategy :: string
  edge :: number
  edge_pct :: "number option"
  annualized_return :: "number option"
  liquidity :: number
  days_until_resolution :: "number option"
  total_cost :: "number option"
  num_outcomes :: "number option"

datatype entry_type = scan | trade | info | error

record ActivityLogEntry =
  timestamp :: string
  type :: entry_type
  message :: string

record BotSettings =
  risk_appetite :: number
  strategies_enabled :: "StrategyType \<Rightarrow> bool"
  max_capital :: number

record StatusResponse =
  bot_status :: BotStatus
  mode :: string
  portfolio :: PortfolioSummary
  active_strategies :: "string list"
  uptime_seconds :: number

section \<open>Remote gateway (api/client.ts) and observable effects\<close>

text \<open>
  Every gateway function is one HTTP request whose promise resolves with the parsed body
  or rejects. A component handler is modelled as a function from the outcomes of the
  requests it awaits and the component state to the effects it performs, in order, and the
  state it leaves. A rejection carries the transport's message.
\<close>

datatype rejection = AxiosError string

datatype request =
    GetBotStatus
  | StartBot string
  | StopBot
  | GetOpportunities string nat
  | GetActivityLog nat
  | GetSettings
  | UpdateSettings BotSettings

datatype effect = Request request | ConsoleError string | Navigate string

text \<open>
  \<open>Promise.all([p, q])\<close>: resolves with both values when both resolve and rejects as
  soon as one rejects, dropping the value of the other. (When both reject, the reason is
  that of whichever rejects first; the handlers below only log it.)
\<close>

definition Promise_all :: "rejection + 'a \<Rightarrow> rejection + 'b \<Rightarrow> rejection + ('a \<times> 'b)" where
  "Promise_all p q =
     (case p of
        Inl e \<Rightarrow> Inl e
      | Inr x \<Rightarrow> (case q of Inl e \<Rightarrow> Inl e | Inr y \<Rightarrow> Inr (x, y)))"

section \<open>Dashboard page (Dashboard.tsx)\<close>

record Dashboard_state =
  status :: "StatusResponse option"
  opportunities :: "Opportunity list"
  activity :: "ActivityLogEntry list"
  loading :: bool
  oppsLoading :: bool

definition Dashboard_init :: Dashboard_state where
  "Dashboard_init =
     \<lparr>status = None, opportunities = [], activity = [], loading = True, oppsLoading = False\<rparr>"

text \<open>
  \<^verbatim>\<open>
  const fetchData = async () => {
    try {
      const [statusData, activityData] = await Promise.all([
        getBotStatus(),
        getActivityLog(20),
      ]);
      setStatus(statusData);
      setActivity(activityData);
    } catch (error) {
      console.error('Failed to fetch status:', error);
    } finally {
      setLoading(false);
    }
  };
  \<close>
  \<open>sr\<close> and \<open>ar\<close> are the outcomes of the status request and of the activity request.
\<close>

definition fetchData ::
  "rejection + StatusResponse \<Rightarrow> rejection + ActivityLogEntry list \<Rightarrow> Dashboard_state
     \<Rightarrow> effect list \<times> Dashboard_state" where
  "fetchData sr ar st =
     (case Promise_all sr ar of
        Inr (statusData, activityData) \<Rightarrow>
          ([Request GetBotStatus, Request (GetActivityLog 20)],
           st\<lparr>status := Some statusData, activity := activityData, loading := False\<rparr>)
      | Inl e \<Rightarrow>
          ([Request GetBotStatus, Request (GetActivityLog 20),
            ConsoleError ''Failed to fetch status:''],
           st\<lparr>loading := False\<rparr>))"

text \<open>
  \<^verbatim>\<open>
  const handleStartStop = async () => {
    try {
      if (status?.bot_status === 'running' || status?.bot_status === 'scanning') {
        await stopBot();
      } else {
        await startBot('balanced');
      }
      // Refresh status
      fetchData();
    } catch (error) {
      console.error('Failed to toggle bot:', error);
    }
  };
  \<close>
  \<open>cr\<close> is the outcome of the command; \<open>sr\<close> and \<open>ar\<close> are the outcomes of the
  refresh that a resolved command starts. The refresh is not awaited by the handler; the
  state returned is the one after it has settled.
\<close>

definition isRunning :: "StatusResponse option \<Rightarrow> bool" where
  "isRunning s =
     (case s of None \<Rightarrow> False
      | Some r \<Rightarrow> bot_status r = Running \<or> bot_status r = Scanning)"

definition handleStartStop ::
  "rejection + string \<Rightarrow> rejection + StatusResponse \<Rightarrow> rejection + ActivityLogEntry list
     \<Rightarrow> Dashboard_state \<Rightarrow> effect list \<times> Dashboard_state" where
  "handleStartStop cr sr ar st =
     (let cmd = (if isRunning (status st) then StopBot else StartBot ''balanced'')
      in case cr of
           Inr msg \<Rightarrow>
             (let (effs, st') = fetchData sr ar st in (Request cmd # effs, st'))
         | Inl e \<Rightarrow> ([Request cmd, ConsoleError ''Failed to toggle bot:''], st))"

text \<open>The requests among a handler's effects.\<close>

fun requests :: "effect list \<Rightarrow> request list" where
  "requests [] = []"
| "requests (Request r # es) = r # requests es"
| "requests (_ # es) = requests es"

section \<open>Opportunity list (TopOpportunities.tsx)\<close>

text \<open>
  \<^verbatim>\<open>
  const formatReturn = (value: number | undefined) => {
    if (value === undefined) return 'N/A';
    return value.toFixed(1) + '%';
  };
  ...
  {formatReturn(o.annualized_return || o.edge_pct)}
  \<close>
\<close>

definition formatReturn :: "number option \<Rightarrow> string" where
  "formatReturn v = (case v of None \<Rightarrow> ''N/A'' | Some x \<Rightarrow> toFixed 1 x @ ''%'')"

definition displayed_return :: "Opportunity \<Rightarrow> string" where
  "displayed_return opp = formatReturn (js_or_undef (annualized_return opp) (edge_pct opp))"

section \<open>Settings page (Settings.tsx)\<close>

record Settings_state =
  settings_loading :: bool
  saving :: bool
  settings :: BotSettings

text \<open>The draft a freshly mounted page holds before anything is loaded.\<close>

definition initial_settings :: BotSettings where
  "initial_settings =
     \<lparr>risk_appetite = Finite 0.5,
      strategies_enabled =
        (\<lambda>k. case k of Fullset \<Rightarrow> True | Endgame \<Rightarrow> True | Oracle \<Rightarrow> False | Rewards \<Rightarrow> True),
      max_capital = Finite 1000\<rparr>"

definition Settings_init :: Settings_state where
  "Settings_init = \<lparr>settings_loading = True, saving = False, settings = initial_settings\<rparr>"

text \<open>
  \<^verbatim>\<open>
  const loadSettings = async () => {
    try {
      const data = await getSettings();
      setSettings({
        risk_appetite: data.risk_appetite,
        strategies_enabled: data.strategies_enabled as Record<StrategyType, boolean>,
        max_capital: data.max_capital,
      });
    } catch (error) {
      console.error('Failed to load settings:', error);
    } finally {
      setLoading(false);
    }
  };
  \<close>
\<close>

definition loadSettings ::
  "rejection + BotSettings \<Rightarrow> Settings_state \<Rightarrow> effect list \<times> Settings_state" where
  "loadSettings res st =
     (case res of
        Inr data \<Rightarrow>
          ([Request GetSettings],
           st\<lparr>settings :=
                \<lparr>risk_appetite = risk_appetite data,
                 strategies_enabled = strategies_enabled data,
                 max_capital = max_capital data\<rparr>,
              settings_loading := False\<rparr>)
      | Inl e \<Rightarrow>
          ([Request GetSettings, ConsoleError ''Failed to load settings:''],
           st\<lparr>settings_loading := False\<rparr>))"

text \<open>
  \<^verbatim>\<open>
  const handleSave = async () => {
    setSaving(true);
    try {
      await updateSettings(settings);
      navigate('/dashboard');
    } catch (error) {
      console.error('Failed to save settings:', error);
    } finally {
      setSaving(false);
    }
  };
  \<close>
\<close>

definition handleSave ::
  "rejection + BotSettings \<Rightarrow> Settings_state \<Rightarrow> effect list \<times> Settings_state" where
  "handleSave res st =
     (let st1 = st\<lparr>saving := True\<rparr>
      in case res of
           Inr echoed \<Rightarrow>
             ([Request (UpdateSettings (settings st1)), Navigate ''/dashboard''],
              st1\<lparr>saving := False\<rparr>)
         | Inl e \<Rightarrow>
             ([Request (UpdateSettings (settings st1)),
               ConsoleError ''Failed to save settings:''],
              st1\<lparr>saving := False\<rparr>))"

text \<open>
  \<^verbatim>\<open>
  const getRiskLabel = (value: number) => {
    if (value < 0.33) return 'Conservative';
    if (value < 0.66) return 'Balanced';
    return 'Aggressive';
  };
  \<close>
\<close>

definition getRiskLabel :: "number \<Rightarrow> string" where
  "getRiskLabel v =
     (if js_lt v (Finite 0.33) then ''Conservative''
      else if js_lt v (Finite 0.66) then ''Balanced''
      else ''Aggressive'')"

text \<open>
  What the page renders: the placeholder while \<open>loading\<close> is set, otherwise the form
  showing the risk label, the draft, and whether the save button is disabled.
\<close>

datatype Settings_view = LoadingPlaceholder | SettingsForm string BotSettings bool

definition Settings_render :: "Settings_state \<Rightarrow> Settings_view" where
  "Settings_render st =
     (if settings_loading st then LoadingPlaceholder
      else SettingsForm (getRiskLabel (risk_appetite (settings st))) (settings st) (saving st))"

text \<open>
  The change handler of the Maximum Capital input:
  \<^verbatim>\<open>
  onChange={(e) =>
    setSettings((s) => ({
      ...s,
      max_capital: parseFloat(e.target.value) || 0,
    }))
  }
  \<close>
  \<open>parseFloat\<close> is the language's own function and is taken as a parameter; \<open>v\<close> is
  \<open>e.target.value\<close>.
\<close>

definition max_capital_onChange ::
  "(string \<Rightarrow> number) \<Rightarrow> string \<Rightarrow> Settings_state \<Rightarrow> Settings_state" where
  "max_capital_onChange parseFloat v st =
     st\<lparr>settings := (settings st)\<lparr>max_capital := js_or (parseFloat v) (Finite 0)\<rparr>\<rparr>"

section \<open>Portfolio chart (PortfolioChart.tsx)\<close>






section \<open>Sample values\<close>

definition sample_portfolio :: PortfolioSummary where
  "sample_portfolio =
     \<lparr>total_value = Finite 1000, cash_balance = Finite 600, positions_value = Finite 400,
      total_pnl = Finite 0, total_return_pct = Finite 0, realized_pnl = Finite 0,
      unrealized_pnl = Finite 0, num_open_positions = Finite 2, total_trades = Finite 5\<rparr>"

definition sample_status :: "BotStatus \<Rightarrow> StatusResponse" where
  "sample_status b =
     \<lparr>bot_status = b, mode = ''paper'', portfolio = sample_portfolio,
      active_strategies = [''fullset''], uptime_seconds = Finite 60\<rparr>"

definition sample_entry :: ActivityLogEntry where
  "sample_entry =
     \<lparr>timestamp = ''2025-01-01T00:00:00Z'', type = scan, message = ''Scan complete''\<rparr>"

text \<open>A dashboard that has polled once: status \<open>b\<close>, an empty activity list.\<close>

definition sample_dashboard :: "BotStatus \<Rightarrow> Dashboard_state" where
  "sample_dashboard b =
     \<lparr>status = Some (sample_status b), opportunities = [], activity = [], loading = False,
      oppsLoading = False\<rparr>"

text \<open>An opportunity whose annualized return is present and zero, with a 5 percent edge.\<close>

definition sample_opportunity :: Opportunity where
  "sample_opportunity =
     \<lparr>opp_id = ''m1'', name = ''Market one'', strategy = ''fullset'', edge = Finite 0.05,
      edge_pct = Some (Finite 5), annualized_return = Some (Finite 0), liquidity = Finite 1500,
      days_until_resolution = None, total_cost = None, num_outcomes = None\<rparr>"

text \<open>A stand-in for \<open>parseFloat\<close> on three inputs; everything else does not parse.\<close>

definition sample_parseFloat :: "string \<Rightarrow> number" where
  "sample_parseFloat s =
     (if s = ''250'' then Finite 250
      else if s = ''-12.5'' then Finite (- 12.5)
      else if s = ''0'' then Finite 0
      else NaN)"


section \<open>Auxiliary facts\<close>

lemma requests_fetchData:
  "requests (fst (fetchData sr ar st)) = [GetBotStatus, GetActivityLog 20]"
  by (cases sr; cases ar) (simp_all add: fetchData_def Promise_all_def)

lemma toFixed_examples:
  "toFixed 1 (Finite 12.34) = ''12.3''"
  "toFixed 1 (Finite 5) = ''5.0''"
  "toFixed 1 (Finite 0) = ''0.0''"
  "toFixed 0 (Finite 999) = ''999''"
  by (simp_all add: toFixed_def nat_toString.simps digit_char_def Let_def)

lemma formatReturn_examples:
  "formatReturn None = ''N/A''"
  "formatReturn (Some (Finite 12.34)) = ''12.3%''"
  by (simp_all add: formatReturn_def toFixed_def nat_toString.simps digit_char_def Let_def)

text \<open>
  The displayed return by cases: the annualized return is shown when it is present and
  truthy; otherwise the edge decides, also when the annualized return is present but zero.
\<close>

lemma displayed_return_cases:
  "displayed_return opp =
     (case annualized_return opp of
        Some a \<Rightarrow>
          if truthy a then toFixed 1 a @ ''%''
          else (case edge_pct opp of None \<Rightarrow> ''N/A'' | Some e \<Rightarrow> toFixed 1 e @ ''%'')
      | None \<Rightarrow> (case edge_pct opp of None \<Rightarrow> ''N/A'' | Some e \<Rightarrow> toFixed 1 e @ ''%''))"
  by (simp add: displayed_return_def formatReturn_def js_or_undef_def split: option.splits)

subsection \<open>Rounding to a double\<close>




lemma ilog2_le:
  assumes "x \<noteq> 0"
  shows "2 powi (ilog2 x) \<le> \<bar>x\<bar>"
proof (cases "1 \<le> \<bar>x\<bar>")
  case True
  define n where "n = \<lfloor>\<bar>x\<bar>\<rfloor>"
  have n: "0 < n" using True by (simp add: n_def)
  have b: "1 \<le> bitlen n" using n bitlen_eq_zero_iff [of n] bitlen_nonneg [of n] by linarith
  have "(2::int) ^ nat (bitlen n - 1) \<le> n" using bitlen_bounds [OF n] by simp
  then have "real_of_int (2 ^ nat (bitlen n - 1)) \<le> of_int n" by (simp only: of_int_le_iff)
  also have "\<dots> \<le> \<bar>x\<bar>" by (simp add: n_def)
  finally have "(2::real) ^ nat (bitlen n - 1) \<le> \<bar>x\<bar>" by simp
  moreover have "(2::real) powi (bitlen n - 1) = 2 ^ nat (bitlen n - 1)"
    using b by (simp add: power_int_nonneg_exp)
  ultimately show ?thesis using True by (simp add: ilog2_def n_def)
next
  case False
  define m where "m = \<lceil>1 / \<bar>x\<bar>\<rceil>"
  define b where "b = bitlen (m - 1)"
  have pos: "0 < \<bar>x\<bar>" using assms by simp
  have "1 < 1 / \<bar>x\<bar>" using False pos by (simp add: field_simps)
  then have m: "0 < m - 1" unfolding m_def by linarith
  have "m - 1 < 2 ^ nat b" using bitlen_bounds [OF m] by (simp add: b_def)
  then have "m \<le> 2 ^ nat b" by simp
  then have "real_of_int m \<le> 2 ^ nat b" by (metis of_int_le_iff of_int_numeral of_int_power)
  moreover have "1 / \<bar>x\<bar> \<le> of_int m" by (simp add: m_def)
  ultimately have "1 / \<bar>x\<bar> \<le> 2 ^ nat b" by linarith
  then have "1 / 2 ^ nat b \<le> \<bar>x\<bar>" using pos by (simp add: field_simps)
  moreover have "(2::real) powi (- b) = 1 / 2 ^ nat b"
    using bitlen_nonneg [of "m - 1"] by (simp add: b_def power_int_minus_divide power_int_nonneg_exp)
  ultimately show ?thesis using False by (simp add: ilog2_def m_def b_def)
qed

lemma ilog2_less:
  assumes "x \<noteq> 0"
  shows "\<bar>x\<bar> < 2 powi (ilog2 x + 1)"
proof (cases "1 \<le> \<bar>x\<bar>")
  case True
  define n where "n = \<lfloor>\<bar>x\<bar>\<rfloor>"
  have n: "0 < n" using True by (simp add: n_def)
  have "n < 2 ^ nat (bitlen n)" using bitlen_bounds [OF n] by simp
  then have "n + 1 \<le> 2 ^ nat (bitlen n)" by simp
  then have "real_of_int (n + 1) \<le> real_of_int (2 ^ nat (bitlen n))"
    by (simp only: of_int_le_iff)
  moreover have "\<bar>x\<bar> < real_of_int (n + 1)" unfolding n_def by linarith
  ultimately have "\<bar>x\<bar> < 2 ^ nat (bitlen n)" by simp
  moreover have "(2::real) powi (bitlen n) = 2 ^ nat (bitlen n)"
    using bitlen_nonneg [of n] by (simp add: power_int_nonneg_exp)
  ultimately show ?thesis using True by (simp add: ilog2_def n_def)
next
  case False
  define m where "m = \<lceil>1 / \<bar>x\<bar>\<rceil>"
  define b where "b = bitlen (m - 1)"
  have pos: "0 < \<bar>x\<bar>" using assms by simp
  have "1 < 1 / \<bar>x\<bar>" using False pos by (simp add: field_simps)
  then have m: "0 < m - 1" unfolding m_def by linarith
  have b: "1 \<le> b"
    using m bitlen_eq_zero_iff [of "m - 1"] bitlen_nonneg [of "m - 1"] unfolding b_def
    by linarith
  have "(2::int) ^ nat (b - 1) \<le> m - 1" using bitlen_bounds [OF m] by (simp add: b_def)
  then have "real_of_int (2 ^ nat (b - 1)) \<le> real_of_int (m - 1)"
    by (simp only: of_int_le_iff)
  moreover have "real_of_int (m - 1) < 1 / \<bar>x\<bar>" unfolding m_def by linarith
  ultimately have "2 ^ nat (b - 1) < 1 / \<bar>x\<bar>" by simp
  then have "\<bar>x\<bar> < 1 / 2 ^ nat (b - 1)" using pos by (simp add: field_simps)
  moreover have "(2::real) powi (- b + 1) = 1 / 2 ^ nat (b - 1)"
  proof -
    have "(2::real) powi (- b + 1) = 2 powi (- (b - 1))" by simp
    also have "\<dots> = 1 / 2 powi (b - 1)" by (rule power_int_minus_divide)
    also have "\<dots> = 1 / 2 ^ nat (b - 1)" using b by (simp add: power_int_nonneg_exp)
    finally show ?thesis .
  qed
  ultimately show ?thesis using False by (simp add: ilog2_def m_def b_def)
qed

text \<open>So \<open>ilog2 x\<close> is the binary exponent of \<open>x\<close>.\<close>

lemma ilog2_floor_log:
  assumes "x \<noteq> 0"
  shows "ilog2 x = \<lfloor>log 2 \<bar>x\<bar>\<rfloor>"
proof -
  have pos: "0 < \<bar>x\<bar>" using assms by simp
  have "2 powr (of_int (ilog2 x)) \<le> \<bar>x\<bar>"
    using ilog2_le [OF assms] by (simp add: powr_real_of_int')
  moreover have "(2::real) powr (of_int (ilog2 x + 1)) = 2 powi (ilog2 x + 1)"
    by (rule powr_real_of_int') simp_all
  then have "\<bar>x\<bar> < 2 powr (of_int (ilog2 x) + 1)"
    using ilog2_less [OF assms] by simp
  ultimately have "\<lfloor>log 2 \<bar>x\<bar>\<rfloor> = ilog2 x"
    using pos by (simp add: floor_log_eq_powr_iff)
  then show ?thesis by simp
qed






subsection \<open>The loop of the series generator\<close>







subsection \<open>Values that stay finite\<close>






subsection \<open>The first value\<close>










subsection \<open>The generator as a whole\<close>








section \<open>Verified properties\<close>

subsection \<open>C1: one failed fetch of a poll tick\<close>

text \<open>
  C1 as stated: when the status fetch fails and the activity fetch succeeds, the previous
  status is retained and the new activity list is applied. \<open>fetchData\<close> awaits both
  requests through one \<open>Promise.all\<close>, so the fetched activity list is dropped: with
  the status request rejected and the activity request delivering one entry, the
  dashboard still shows its old, empty activity list.
\<close>

theorem fetchData_drops_activity_counterexample:
  "activity (snd (fetchData (Inl (AxiosError ''Network Error'')) (Inr [sample_entry])
      (sample_dashboard Running))) \<noteq> [sample_entry]
   \<and> activity (snd (fetchData (Inl (AxiosError ''Network Error'')) (Inr [sample_entry])
      (sample_dashboard Running))) = activity (sample_dashboard Running)"
  by (simp add: fetchData_def Promise_all_def sample_dashboard_def)

text \<open>
  C1, amended: when the status fetch fails and the activity fetch succeeds, the poller
  retains both the previous status and the previous activity list (the fetched activity
  list is not applied), and a subsequent fully successful poll replaces both halves.
\<close>

theorem fetchData_status_failure_keeps_both:
  "status (snd (fetchData (Inl e) (Inr a) st)) = status st
   \<and> activity (snd (fetchData (Inl e) (Inr a) st)) = activity st
   \<and> status (snd (fetchData (Inr s') (Inr a') (snd (fetchData (Inl e) (Inr a) st)))) = Some s'
   \<and> activity (snd (fetchData (Inr s') (Inr a') (snd (fetchData (Inl e) (Inr a) st)))) = a'"
  by (simp add: fetchData_def Promise_all_def)

subsection \<open>C2: the synthetic series\<close>




subsection \<open>C3: which command the toggle issues\<close>

text \<open>
  C3 as stated: when the bot is not running, the toggle issues one start command carrying
  the selected preset. \<open>handleStartStop\<close> has no preset to choose from: it always sends
  \<open>balanced\<close>. With the bot stopped and \<open>safe\<close> as the preset the operator selected,
  the requests are one start of \<open>balanced\<close> and the refresh; no start of \<open>safe\<close> is
  among them.
\<close>

theorem handleStartStop_preset_counterexample:
  "requests (fst (handleStartStop (Inr ''Bot started'') (Inr (sample_status Running)) (Inr [])
      (sample_dashboard Stopped))) = [StartBot ''balanced'', GetBotStatus, GetActivityLog 20]
   \<and> StartBot ''safe'' \<notin> set (requests (fst (handleStartStop (Inr ''Bot started'')
      (Inr (sample_status Running)) (Inr []) (sample_dashboard Stopped))))"
  by (simp add: handleStartStop_def isRunning_def sample_dashboard_def sample_status_def
      split_beta requests_fetchData)

text \<open>
  C3, amended: for every current status, the toggle issues exactly one stop command and
  no start command when the status is Running or Scanning, and otherwise (Stopped, or no
  status yet) exactly one start command carrying the fixed preset \<open>balanced\<close>, no start
  command with any other preset, and no stop command. This holds whatever the outcomes
  of the command and of the refresh are.
\<close>

theorem handleStartStop_commands:
  "(\<forall>s. status st = Some s \<and> (bot_status s = Running \<or> bot_status s = Scanning) \<longrightarrow>
      count_list (requests (fst (handleStartStop cr sr ar st))) StopBot = 1
      \<and> (\<forall>p. StartBot p \<notin> set (requests (fst (handleStartStop cr sr ar st)))))
   \<and> ((status st = None \<or> (\<exists>s. status st = Some s \<and> bot_status s = Stopped)) \<longrightarrow>
      count_list (requests (fst (handleStartStop cr sr ar st))) (StartBot ''balanced'') = 1
      \<and> (\<forall>p. p \<noteq> ''balanced'' \<longrightarrow>
            StartBot p \<notin> set (requests (fst (handleStartStop cr sr ar st))))
      \<and> StopBot \<notin> set (requests (fst (handleStartStop cr sr ar st))))"
  by (cases cr) (auto simp: handleStartStop_def isRunning_def split_beta requests_fetchData)

theorem handleStartStop_commands_witness:
  "count_list (requests (fst (handleStartStop (Inr ''Bot stopped'') (Inr (sample_status Stopped))
       (Inr []) (sample_dashboard Scanning)))) StopBot = 1
   \<and> (\<forall>p. StartBot p \<notin> set (requests (fst (handleStartStop (Inr ''Bot stopped'')
       (Inr (sample_status Stopped)) (Inr []) (sample_dashboard Scanning)))))
   \<and> count_list (requests (fst (handleStartStop (Inl (AxiosError ''Network Error''))
       (Inr (sample_status Stopped)) (Inr []) (sample_dashboard Stopped))))
       (StartBot ''balanced'') = 1
   \<and> StopBot \<notin> set (requests (fst (handleStartStop (Inl (AxiosError ''Network Error''))
       (Inr (sample_status Stopped)) (Inr []) (sample_dashboard Stopped))))"
  using handleStartStop_commands [of "sample_dashboard Scanning" "Inr ''Bot stopped''"
      "Inr (sample_status Stopped)" "Inr []"]
    handleStartStop_commands [of "sample_dashboard Stopped" "Inl (AxiosError ''Network Error'')"
      "Inr (sample_status Stopped)" "Inr []"]
  by (simp add: sample_dashboard_def sample_status_def)

subsection \<open>C4: the refresh after a command\<close>

text \<open>
  C4 as stated: the refresh is triggered after the command completes, on failure as on
  success. In \<open>handleStartStop\<close> the call of \<open>fetchData\<close> follows the awaited command
  inside the \<open>try\<close> block, so a rejected command skips it: with the bot running and the
  stop command rejected, the only request is the stop command itself.
\<close>

theorem handleStartStop_failure_counterexample:
  "requests (fst (handleStartStop (Inl (AxiosError ''Network Error''))
      (Inr (sample_status Stopped)) (Inr [sample_entry]) (sample_dashboard Running))) = [StopBot]
   \<and> GetBotStatus \<notin> set (requests (fst (handleStartStop (Inl (AxiosError ''Network Error''))
      (Inr (sample_status Stopped)) (Inr [sample_entry]) (sample_dashboard Running))))"
  by (simp add: handleStartStop_def isRunning_def sample_dashboard_def sample_status_def)

text \<open>
  C4, amended: after a start or stop command that succeeds, the coordinator triggers an
  immediate out-of-band refresh (a status and an activity request) and the state is the
  one that refresh leaves; after a command that fails, no refresh is triggered and the
  state is left as it was. In both cases the handler applies no optimistic transition:
  the displayed status afterwards is either the one displayed before or the one the
  refresh fetched.
\<close>

theorem handleStartStop_refresh:
  "(\<forall>msg. cr = Inr msg \<longrightarrow>
      GetBotStatus \<in> set (requests (fst (handleStartStop cr sr ar st)))
      \<and> GetActivityLog 20 \<in> set (requests (fst (handleStartStop cr sr ar st)))
      \<and> snd (handleStartStop cr sr ar st) = snd (fetchData sr ar st))
   \<and> (\<forall>e. cr = Inl e \<longrightarrow>
      GetBotStatus \<notin> set (requests (fst (handleStartStop cr sr ar st)))
      \<and> snd (handleStartStop cr sr ar st) = st)
   \<and> (status (snd (handleStartStop cr sr ar st)) = status st
      \<or> (\<exists>s. sr = Inr s \<and> status (snd (handleStartStop cr sr ar st)) = Some s))"
  by (cases cr; cases sr; cases ar)
    (auto simp: handleStartStop_def split_beta requests_fetchData fetchData_def Promise_all_def)

theorem handleStartStop_refresh_witness:
  "GetBotStatus \<in> set (requests (fst (handleStartStop (Inr ''Bot stopped'')
      (Inr (sample_status Stopped)) (Inr [sample_entry]) (sample_dashboard Running))))
   \<and> status (snd (handleStartStop (Inr ''Bot stopped'')
      (Inr (sample_status Stopped)) (Inr [sample_entry]) (sample_dashboard Running)))
      = Some (sample_status Stopped)
   \<and> snd (handleStartStop (Inl (AxiosError ''Network Error''))
      (Inr (sample_status Stopped)) (Inr [sample_entry]) (sample_dashboard Running))
      = sample_dashboard Running"
  using handleStartStop_refresh [of "Inr ''Bot stopped''" "Inr (sample_status Stopped)"
      "Inr [sample_entry]" "sample_dashboard Running"]
    handleStartStop_refresh [of "Inl (AxiosError ''Network Error'')"
      "Inr (sample_status Stopped)" "Inr [sample_entry]" "sample_dashboard Running"]
  by (simp add: fetchData_def Promise_all_def)

subsection \<open>C5: a failed load of the settings\<close>

text \<open>
  C5 as stated: a failed load ends in an explicit failed-to-load state and does not
  present a locally defaulted draft as if it were the remote settings. The page has no
  such state: after a rejected load of a freshly mounted page the form is rendered with
  the built-in default draft, and the page state is the very state a successful load of
  remote settings equal to those defaults leaves.
\<close>

theorem loadSettings_failure_counterexample:
  "Settings_render (snd (loadSettings (Inl (AxiosError ''Network Error'')) Settings_init))
     = SettingsForm ''Balanced'' initial_settings False
   \<and> snd (loadSettings (Inl (AxiosError ''Network Error'')) Settings_init)
     = snd (loadSettings (Inr initial_settings) Settings_init)"
  by (simp add: loadSettings_def Settings_init_def Settings_render_def getRiskLabel_def
      initial_settings_def)

text \<open>
  C5, amended: if loading the remote settings fails, the failure is logged to the
  console, the loading flag is cleared and the draft is left as it was; the page then
  renders the editable form over that draft, which after the initial load is the
  built-in default draft (risk appetite 0.5, all strategies but oracle enabled, maximum
  capital 1000). No failed-to-load state is recorded.
\<close>

theorem loadSettings_failure_keeps_draft:
  "snd (loadSettings (Inl e) st) = st\<lparr>settings_loading := False\<rparr>
   \<and> fst (loadSettings (Inl e) st)
       = [Request GetSettings, ConsoleError ''Failed to load settings:'']
   \<and> Settings_render (snd (loadSettings (Inl e) st))
       = SettingsForm (getRiskLabel (risk_appetite (settings st))) (settings st) (saving st)
   \<and> Settings_render (snd (loadSettings (Inl e) Settings_init))
       = SettingsForm ''Balanced'' initial_settings False"
  by (simp add: loadSettings_def Settings_init_def Settings_render_def getRiskLabel_def
      initial_settings_def)

subsection \<open>C6: saving the draft\<close>

text \<open>
  C6. \<open>handleSave\<close> transmits the entire draft: its one request is the settings update
  whose body is the whole draft, whatever the outcome; a successful load immediately
  followed by a save sends a body equal to the loaded values; and a failed save leaves
  the draft unchanged.
\<close>

theorem handleSave_whole_draft:
  "requests (fst (handleSave res st)) = [UpdateSettings (settings st)]
   \<and> requests (fst (handleSave res (snd (loadSettings (Inr data) st0)))) = [UpdateSettings data]
   \<and> settings (snd (handleSave (Inl e) st)) = settings st"
  by (cases res) (simp_all add: handleSave_def loadSettings_def)

subsection \<open>C7: the displayed return of an opportunity\<close>

text \<open>
  C7. The displayed return is meant to be the one-decimal percentage of
  \<open>annualized_return\<close> whenever that field is present, else that of \<open>edge_pct\<close>, else
  "N/A". The display code chooses with \<open>||\<close>, which falls through on a value of zero as
  well as on an absent field: for the sample opportunity, whose annualized return is
  present and 0 and whose edge is 5 percent, the displayed string is "5.0%", not the
  "0.0%" of the annualized return.
\<close>

theorem displayed_return_zero_annualized:
  "annualized_return sample_opportunity = Some (Finite 0)
   \<and> displayed_return sample_opportunity = ''5.0%''
   \<and> formatReturn (annualized_return sample_opportunity) = ''0.0%''"
  by (simp add: displayed_return_def formatReturn_def js_or_undef_def sample_opportunity_def
      toFixed_def nat_toString.simps digit_char_def Let_def)

subsection \<open>C8: the risk label\<close>

text \<open>
  C8. \<open>getRiskLabel\<close> maps every \<open>r < 0.33\<close> to "Conservative", every
  \<open>0.33 \<le> r < 0.66\<close> to "Balanced" and every \<open>r \<ge> 0.66\<close> to "Aggressive"; the
  two boundaries belong to the upper band, so the labels of \<open>0.0\<close>, \<open>0.33\<close>,
  \<open>0.66\<close> and \<open>1.0\<close> are "Conservative", "Balanced", "Aggressive" and "Aggressive".
\<close>

theorem getRiskLabel_bands:
  "(r < 0.33 \<longrightarrow> getRiskLabel (Finite r) = ''Conservative'')
   \<and> (0.33 \<le> r \<and> r < 0.66 \<longrightarrow> getRiskLabel (Finite r) = ''Balanced'')
   \<and> (0.66 \<le> r \<longrightarrow> getRiskLabel (Finite r) = ''Aggressive'')
   \<and> getRiskLabel (Finite 0.0) = ''Conservative''
   \<and> getRiskLabel (Finite 0.33) = ''Balanced''
   \<and> getRiskLabel (Finite 0.66) = ''Aggressive''
   \<and> getRiskLabel (Finite 1.0) = ''Aggressive''"
  by (simp add: getRiskLabel_def)

theorem getRiskLabel_bands_witness:
  "(0.1::real) < 0.33 \<and> getRiskLabel (Finite 0.1) = ''Conservative''
   \<and> (0.33::real) \<le> 0.5 \<and> (0.5::real) < 0.66 \<and> getRiskLabel (Finite 0.5) = ''Balanced''
   \<and> (0.66::real) \<le> 0.9 \<and> getRiskLabel (Finite 0.9) = ''Aggressive''"
  using getRiskLabel_bands [of "0.1"] getRiskLabel_bands [of "0.5"]
    getRiskLabel_bands [of "0.9"]
  by simp

subsection \<open>C9: a failed poll leaves the display as it was\<close>

text \<open>
  C9. On any failure of a poll fetch (the status request, the activity request, or
  both), the displayed status and the displayed activity list are left unchanged, and
  the next successful poll replaces both.
\<close>

theorem fetchData_failure_frame:
  assumes "isl sr \<or> isl ar"
  shows "status (snd (fetchData sr ar st)) = status st
   \<and> activity (snd (fetchData sr ar st)) = activity st
   \<and> status (snd (fetchData (Inr s') (Inr a') (snd (fetchData sr ar st)))) = Some s'
   \<and> activity (snd (fetchData (Inr s') (Inr a') (snd (fetchData sr ar st)))) = a'"
  using assms by (cases sr; cases ar) (simp_all add: fetchData_def Promise_all_def)

theorem fetchData_failure_frame_witness:
  "isl (Inl (AxiosError ''timeout'') :: rejection + ActivityLogEntry list)
   \<and> status (snd (fetchData (Inr (sample_status Stopped)) (Inl (AxiosError ''timeout''))
        (sample_dashboard Running))) = Some (sample_status Running)
   \<and> activity (snd (fetchData (Inr (sample_status Stopped)) (Inl (AxiosError ''timeout''))
        (sample_dashboard Running))) = []
   \<and> status (snd (fetchData (Inr (sample_status Stopped)) (Inr [sample_entry])
        (snd (fetchData (Inr (sample_status Stopped)) (Inl (AxiosError ''timeout''))
          (sample_dashboard Running))))) = Some (sample_status Stopped)
   \<and> activity (snd (fetchData (Inr (sample_status Stopped)) (Inr [sample_entry])
        (snd (fetchData (Inr (sample_status Stopped)) (Inl (AxiosError ''timeout''))
          (sample_dashboard Running))))) = [sample_entry]"
  using fetchData_failure_frame [of "Inr (sample_status Stopped)" "Inl (AxiosError ''timeout'')"
      "sample_dashboard Running" "sample_status Stopped" "[sample_entry]"]
  by (simp add: sample_dashboard_def)

subsection \<open>C10: the Maximum Capital input\<close>

text \<open>
  C10. For every string \<open>v\<close> typed into the Maximum Capital input, the draft's
  \<open>max_capital\<close> is never NaN: it is \<open>parseFloat v\<close> when that is a nonzero finite
  number and 0 when \<open>v\<close> does not parse (NaN) or parses to zero; a negative value is
  stored as typed, without clamping; the other fields of the draft are untouched. The
  input is of type \<open>number\<close>, whose value is the empty string or a valid finite
  floating-point literal, so \<open>parseFloat v\<close> is NaN or finite there; under that
  condition the stored value is a finite (real) number.
\<close>

theorem max_capital_onChange_never_NaN:
  "max_capital (settings (max_capital_onChange parseFloat v st)) \<noteq> NaN
   \<and> (\<forall>x. parseFloat v = Finite x \<and> x \<noteq> 0 \<longrightarrow>
        max_capital (settings (max_capital_onChange parseFloat v st)) = Finite x)
   \<and> (parseFloat v = NaN \<or> parseFloat v = Finite 0 \<longrightarrow>
        max_capital (settings (max_capital_onChange parseFloat v st)) = Finite 0)
   \<and> (parseFloat v \<noteq> PosInfinity \<and> parseFloat v \<noteq> NegInfinity \<longrightarrow>
        (\<exists>r. max_capital (settings (max_capital_onChange parseFloat v st)) = Finite r))
   \<and> (\<forall>x. parseFloat v = Finite x \<and> x < 0 \<longrightarrow>
        max_capital (settings (max_capital_onChange parseFloat v st)) = Finite x)
   \<and> risk_appetite (settings (max_capital_onChange parseFloat v st)) = risk_appetite (settings st)
   \<and> strategies_enabled (settings (max_capital_onChange parseFloat v st))
       = strategies_enabled (settings st)"
  by (cases "parseFloat v") (auto simp: max_capital_onChange_def js_or_def)

theorem max_capital_onChange_never_NaN_witness:
  "max_capital (settings (max_capital_onChange sample_parseFloat ''250'' Settings_init))
     = Finite 250
   \<and> max_capital (settings (max_capital_onChange sample_parseFloat ''-12.5'' Settings_init))
     = Finite (- 12.5)
   \<and> max_capital (settings (max_capital_onChange sample_parseFloat [] Settings_init))
     = Finite 0
   \<and> max_capital (settings (max_capital_onChange sample_parseFloat ''abc'' Settings_init))
     = Finite 0
   \<and> max_capital (settings (max_capital_onChange sample_parseFloat ''0'' Settings_init))
     = Finite 0"
  using max_capital_onChange_never_NaN [of sample_parseFloat "''250''" Settings_init]
    max_capital_onChange_never_NaN [of sample_parseFloat "''-12.5''" Settings_init]
    max_capital_onChange_never_NaN [of sample_parseFloat "[]" Settings_init]
    max_capital_onChange_never_NaN [of sample_parseFloat "''abc''" Settings_init]
    max_capital_onChange_never_NaN [of sample_parseFloat "''0''" Settings_init]
  by (simp add: sample_parseFloat_def)

end
